theory Spec2Isabelle
  imports Main "HOL-Library.Word"
begin

unbundle bit_operations_syntax

section \<open>The RADIUS/Diameter gateway worker (rgw_worker.c)\<close>

text \<open>
  The file \<^verbatim>\<open>extensions/app_radgw/rgw_worker.c\<close> holds the work queue entry points
  (\<^verbatim>\<open>rgw_work_start\<close>, \<^verbatim>\<open>rgw_work_add\<close>), the worker thread \<^verbatim>\<open>work_th\<close> and the
  answer callback \<^verbatim>\<open>receive_diam_answer\<close>.  Every other function they call
  (\<^verbatim>\<open>rgw_msg_auth_check\<close>, \<^verbatim>\<open>rgw_clients_check_dup\<close>, \<^verbatim>\<open>rgw_plg_loop_req\<close>,
  \<^verbatim>\<open>fd_msg_send\<close>, ...) lives in other files.  The embedding therefore records what
  the two functions do as a trace of the calls they make that create, hand over or
  release an object, and takes what each callee returns as a parameter: one record of
  outcomes per run.
\<close>

subsection \<open>Objects and events\<close>

text \<open>Objects are known by their address; a C pointer that may be \<^verbatim>\<open>NULL\<close> is an option.\<close>

type_synonym radius_ref = nat     \<comment> \<open>\<^verbatim>\<open>struct rgw_radius_msg_meta *\<close>\<close>
type_synonym client_ref = nat     \<comment> \<open>\<^verbatim>\<open>struct rgw_client *\<close>\<close>
type_synonym session_ref = nat    \<comment> \<open>\<^verbatim>\<open>struct session *\<close>\<close>
type_synonym diam_ref = nat       \<comment> \<open>\<^verbatim>\<open>struct msg *\<close>\<close>
type_synonym reply_ref = nat      \<comment> \<open>\<^verbatim>\<open>struct radius_msg *\<close>\<close>

text \<open>\<^verbatim>\<open>struct work_item\<close>: the data that is stacked.\<close>

record work_item =
  wi_msg :: radius_ref
  wi_cli :: client_ref

text \<open>\<^verbatim>\<open>struct pending_answer\<close>: the data kept while the Diameter answer is pending.\<close>

record pending_answer =
  pa_rad :: radius_ref
  pa_cli :: client_ref
  pa_sess :: session_ref

text \<open>
  One event per call that matters for ownership, with the arguments of the call.
  \<^verbatim>\<open>rgw_msg_free\<close> is given the content of the variable \<^verbatim>\<open>msg\<close>, which a callee may
  have set to \<^verbatim>\<open>NULL\<close>; the same holds for the Diameter message handed to \<^verbatim>\<open>fd_msg_send\<close>.
  The \<^verbatim>\<open>TRACE_DEBUG\<close> lines are left out, except the warning of the answer callback.
\<close>

datatype event =
    Free_wi work_item
  | Auth_check radius_ref client_ref
  | Check_dup radius_ref client_ref
  | Check_origin radius_ref client_ref
  | Create_base radius_ref client_ref
  | Plg_loop_req radius_ref "session_ref option" "diam_ref option" client_ref
  | Parse_rules diam_ref
  | Log_invalid_msg
  | Log_no_plugin "8 word"
  | Sess_destroy session_ref
  | Fd_msg_free diam_ref
  | Rgw_msg_free "radius_ref option"
  | Clients_dispose client_ref
  | Malloc_pa
  | Fd_msg_send "diam_ref option" pending_answer
  | Log_send_error
  | Free_pa pending_answer
  | Radius_msg_new
  | Plg_loop_ans radius_ref session_ref "diam_ref option" reply_ref client_ref
  | Log_warning int
  | Finish_send reply_ref radius_ref client_ref

subsection \<open>The worker thread\<close>

text \<open>
  What the callees of one iteration of \<^verbatim>\<open>work_th\<close> answer.  A return code is an \<open>int\<close>,
  0 for success, as \<^verbatim>\<open>CHECK_FCT_DO\<close> tests it.  The callees that receive the address of a
  local variable may change it: \<^verbatim>\<open>rgw_clients_check_dup\<close> and \<^verbatim>\<open>rgw_plg_loop_req\<close> may
  set \<^verbatim>\<open>msg\<close> to \<^verbatim>\<open>NULL\<close>, \<^verbatim>\<open>rgw_msg_create_base\<close> sets \<^verbatim>\<open>session\<close> and \<^verbatim>\<open>diam_msg\<close>,
  \<^verbatim>\<open>rgw_plg_loop_req\<close> may change both again, and \<^verbatim>\<open>fd_msg_send\<close>, which is given
  \<^verbatim>\<open>&diam_msg\<close>, may set it to \<^verbatim>\<open>NULL\<close>.
  \<open>attrs_left\<close> is the attribute array of the RADIUS message as the plug-ins leave it:
  the types of the attributes at \<^verbatim>\<open>attr_pos[0 .. attr_used - 1]\<close>.
\<close>

record stage_outcomes =
  auth_ret :: int
  dup_ret :: int
  dup_nulls :: bool
  origin_ret :: int
  base_ret :: int
  base_sess :: "session_ref option"
  base_diam :: "diam_ref option"
  plg_ret :: int
  plg_nulls :: bool
  plg_sess :: "session_ref option"
  plg_diam :: "diam_ref option"
  attrs_left :: "8 word list"
  parse_ret :: int
  malloc_ok :: bool
  send_ret :: int
  send_nulls :: bool

text \<open>
  How one iteration of the \<^verbatim>\<open>while (1)\<close> loop ends: with \<^verbatim>\<open>continue\<close> and nothing
  dispatched, at the end of the body with the answer callback registered for a
  \<^verbatim>\<open>pending_answer\<close>, with \<^verbatim>\<open>break\<close>, or in the failed \<^verbatim>\<open>ASSERT(session != NULL)\<close>.
\<close>

datatype item_result = Dropped | Sent pending_answer | Worker_exit | Assert_failed

text \<open>
  The counter \<^verbatim>\<open>pb\<close> of the completeness check (lines 158 to 176): one for a
  Diameter message that is missing or that \<^verbatim>\<open>fd_msg_parse_rules\<close> rejects (the rules are
  only parsed when there is a message), then \<^verbatim>\<open>pb++\<close> once per attribute left in the
  RADIUS message.  \<open>pb\<close> is a C \<^verbatim>\<open>int\<close>; a RADIUS packet holds at most 4096 bytes, so
  the count of attributes stays far from the range where it would wrap, and \<open>int\<close>
  models it.
\<close>

definition diam_invalid :: "diam_ref option \<Rightarrow> int \<Rightarrow> bool" where
  "diam_invalid diam_msg parse = (case diam_msg of None \<Rightarrow> True | Some d \<Rightarrow> parse \<noteq> 0)"

fun attr_loop :: "int \<Rightarrow> 8 word list \<Rightarrow> int" where
  "attr_loop pb [] = pb"
| "attr_loop pb (a # as) = attr_loop (pb + 1) as"

definition completeness_pb :: "diam_ref option \<Rightarrow> int \<Rightarrow> 8 word list \<Rightarrow> int" where
  "completeness_pb diam_msg parse attrs =
     attr_loop (if diam_invalid diam_msg parse then 0 + 1 else 0) attrs"

text \<open>
  The body of the loop of \<^verbatim>\<open>work_th\<close>, from the item that \<^verbatim>\<open>fd_fifo_get\<close> delivered on.
  A callee that is given \<^verbatim>\<open>&msg\<close> either leaves the variable or sets it to \<^verbatim>\<open>NULL\<close>.
\<close>

definition work_th_item :: "stage_outcomes \<Rightarrow> work_item \<Rightarrow> event list \<times> item_result" where
  "work_th_item oc wi =
    (let m = wi_msg wi; c = wi_cli wi;
         t1 = [Free_wi wi, Auth_check m c]
     in
     if auth_ret oc \<noteq> 0 then (t1 @ [Rgw_msg_free (Some m), Clients_dispose c], Dropped)
     else
     let t2 = t1 @ [Check_dup m c];
         msg = (if dup_nulls oc then None else Some m)
     in
     if dup_ret oc \<noteq> 0 then (t2 @ [Rgw_msg_free msg, Clients_dispose c], Dropped)
     else if msg = None then (t2 @ [Clients_dispose c], Dropped)
     else
     let t3 = t2 @ [Check_origin m c] in
     if origin_ret oc \<noteq> 0 then (t3 @ [Rgw_msg_free (Some m), Clients_dispose c], Dropped)
     else
     let t4 = t3 @ [Create_base m c] in
     if base_ret oc \<noteq> 0 then (t4 @ [Rgw_msg_free (Some m), Clients_dispose c], Dropped)
     else
     let t5 = t4 @ [Plg_loop_req m (base_sess oc) (base_diam oc) c];
         msg = (if plg_nulls oc then None else Some m);
         session = plg_sess oc;
         diam_msg = plg_diam oc
     in
     if plg_ret oc \<noteq> 0 then (t5 @ [Rgw_msg_free msg, Clients_dispose c], Dropped)
     else if msg = None then (t5 @ [Clients_dispose c], Dropped)
     else
     let invalid = diam_invalid diam_msg (parse_ret oc);
         pb = completeness_pb diam_msg (parse_ret oc) (attrs_left oc);
         t6 = t5 @ (case diam_msg of None \<Rightarrow> [] | Some d \<Rightarrow> [Parse_rules d])
                 @ (if invalid then [Log_invalid_msg] else [])
                 @ map Log_no_plugin (attrs_left oc)
     in
     case session of
       None \<Rightarrow> (t6, Assert_failed)
     | Some s \<Rightarrow>
         if pb \<noteq> 0 then
           (t6 @ [Sess_destroy s]
               @ (case diam_msg of None \<Rightarrow> [] | Some d \<Rightarrow> [Fd_msg_free d])
               @ [Rgw_msg_free (Some m), Clients_dispose c], Dropped)
         else if \<not> malloc_ok oc then (t6 @ [Malloc_pa], Worker_exit)
         else
           let pa = \<lparr>pa_rad = m, pa_cli = c, pa_sess = s\<rparr>;
               t7 = t6 @ [Malloc_pa, Fd_msg_send diam_msg pa];
               diam_msg = (if send_nulls oc then None else diam_msg)
           in
           if send_ret oc \<noteq> 0 then
             (t7 @ [Log_send_error, Sess_destroy s]
                 @ (case diam_msg of None \<Rightarrow> [] | Some d \<Rightarrow> [Fd_msg_free d])
                 @ [Rgw_msg_free (Some m), Clients_dispose c, Free_pa pa], Dropped)
           else (t7, Sent pa))"

text \<open>
  The loop of \<^verbatim>\<open>work_th\<close> over the items that \<^verbatim>\<open>fd_fifo_get\<close> delivers, each with the
  outcomes of its stages.  The list ends where \<^verbatim>\<open>fd_fifo_get\<close> reports an error or the
  thread is cancelled.  \<^verbatim>\<open>break\<close> and the failed assertion end the loop before that.
\<close>

fun work_th :: "(stage_outcomes \<times> work_item) list \<Rightarrow> event list" where
  "work_th [] = []"
| "work_th ((oc, wi) # rest) =
     (case work_th_item oc wi of
        (t, Dropped) \<Rightarrow> t @ work_th rest
      | (t, Sent pa) \<Rightarrow> t @ work_th rest
      | (t, Worker_exit) \<Rightarrow> t
      | (t, Assert_failed) \<Rightarrow> t)"

subsection \<open>The answer callback\<close>

text \<open>
  The constants of \<^verbatim>\<open>receive_diam_answer\<close> that the library headers define: the two
  flag bits of an AVP header and the two AVP codes that the callback ignores.  The
  headers are not part of the file, so the constants are a parameter.
\<close>

record avp_consts =
  AVP_FLAG_MANDATORY :: "8 word"
  AVP_FLAG_VENDOR :: "8 word"
  DIAM_ATTR_ROUTE_RECORD :: "32 word"
  DIAM_ATTR_PROXY_INFO :: "32 word"

text \<open>\<^verbatim>\<open>struct avp_hdr\<close>, the two fields that the callback reads.\<close>

record avp_hdr =
  avp_code :: "32 word"
  avp_flags :: "8 word"

text \<open>
  A top-level AVP of the answer as the callback sees it: what \<^verbatim>\<open>fd_msg_avp_hdr\<close>
  gives for it (\<open>None\<close> when it reports an error) and the return code of
  \<^verbatim>\<open>fd_msg_browse(avp, MSG_BRW_NEXT, ...)\<close> called on it.
\<close>

record avp =
  hdr_res :: "avp_hdr option"
  next_ret :: int

text \<open>
  What the callees of the callback answer: the reply that \<^verbatim>\<open>radius_msg_new\<close>
  allocates (\<open>None\<close> when it fails), the return code of \<^verbatim>\<open>rgw_plg_loop_ans\<close>, whether
  it sets \<^verbatim>\<open>*ans\<close> to \<^verbatim>\<open>NULL\<close> and the value of \<^verbatim>\<open>rad_ans\<close> after it, the return code
  of the first \<^verbatim>\<open>fd_msg_browse\<close> and the chain of AVPs that it and the following calls
  walk.
\<close>

record answer_outcomes =
  new_rad_ans :: "reply_ref option"
  loop_ans_ret :: int
  loop_ans_nulls :: bool
  loop_ans_rad :: "reply_ref option"
  first_child_ret :: int
  children :: "avp list"

text \<open>The body of the \<^verbatim>\<open>while (avp)\<close> loop for one header: by how much \<^verbatim>\<open>pb\<close> grows.\<close>

definition check_avp :: "avp_consts \<Rightarrow> avp_hdr \<Rightarrow> int" where
  "check_avp K ahdr =
     (if avp_flags ahdr AND AVP_FLAG_MANDATORY K \<noteq> 0 then
        (if avp_flags ahdr AND AVP_FLAG_VENDOR K \<noteq> 0 then 1
         else if avp_code ahdr = DIAM_ATTR_ROUTE_RECORD K then 0
         else if avp_code ahdr = DIAM_ATTR_PROXY_INFO K then 0
         else 1)
      else 0)"

text \<open>
  The loop \<^verbatim>\<open>while (avp)\<close>.  The list is the chain from the current AVP on; the empty
  list is \<^verbatim>\<open>avp == NULL\<close>.  When \<^verbatim>\<open>fd_msg_avp_hdr\<close> fails the code runs
  \<^verbatim>\<open>{ pb++; continue; }\<close> with \<^verbatim>\<open>avp\<close> unchanged, so the loop tests the same AVP again;
  the loop is therefore a partial function, and \<open>None\<close> stands for a loop that never
  ends.  When the browse to the next AVP fails the code runs \<^verbatim>\<open>{ pb++; break; }\<close>.
\<close>

partial_function (option) avp_loop :: "avp_consts \<Rightarrow> int \<Rightarrow> avp list \<Rightarrow> int option" where
  "avp_loop K pb avps =
     (case avps of
        [] \<Rightarrow> Some pb
      | a # rest \<Rightarrow>
          (case hdr_res a of
             None \<Rightarrow> avp_loop K (pb + 1) avps
           | Some ahdr \<Rightarrow>
               if next_ret a \<noteq> 0 then Some (pb + check_avp K ahdr + 1)
               else avp_loop K (pb + check_avp K ahdr) rest))"

text \<open>
  The semantic-loss check (lines 251 to 276): a failed first browse gives
  \<^verbatim>\<open>{ avp = NULL; pb++; }\<close>, otherwise the loop runs from \<^verbatim>\<open>pb = 0\<close>.
\<close>

definition remaining_pb :: "avp_consts \<Rightarrow> answer_outcomes \<Rightarrow> int option" where
  "remaining_pb K ao =
     (if first_child_ret ao \<noteq> 0 then Some (0 + 1) else avp_loop K 0 (children ao))"

text \<open>The statements after the label \<^verbatim>\<open>out:\<close> (lines 287 to 304).\<close>

definition out_label :: "pending_answer \<Rightarrow> diam_ref option \<Rightarrow> event list" where
  "out_label pa ans =
     [Sess_destroy (pa_sess pa)]
       @ (case ans of None \<Rightarrow> [] | Some d \<Rightarrow> [Fd_msg_free d])
       @ [Clients_dispose (pa_cli pa), Free_pa pa]"

text \<open>
  \<^verbatim>\<open>receive_diam_answer(paback, ans)\<close>.  \<open>paback\<close> is the pointer to the
  \<^verbatim>\<open>pending_answer\<close>, \<open>ans\<close> the pointer to the variable that holds the answer, which
  may itself hold \<^verbatim>\<open>NULL\<close>.  The result is the trace of the call, or \<open>None\<close> when the
  call never returns.  A failure of \<^verbatim>\<open>rgw_client_finish_send\<close> jumps to \<^verbatim>\<open>out:\<close>,
  which is the next statement anyway, so its return code has no effect.
\<close>

definition receive_diam_answer ::
  "avp_consts \<Rightarrow> answer_outcomes \<Rightarrow> pending_answer option \<Rightarrow> diam_ref option option
     \<Rightarrow> event list option" where
  "receive_diam_answer K ao paback ans =
     (case paback of
        None \<Rightarrow> Some []
      | Some pa \<Rightarrow>
     (case ans of
        None \<Rightarrow> Some []
      | Some ans0 \<Rightarrow>
     (case new_rad_ans ao of
        None \<Rightarrow> Some ([Radius_msg_new] @ out_label pa ans0)
      | Some rad_ans \<Rightarrow>
          let t1 = [Radius_msg_new, Plg_loop_ans (pa_rad pa) (pa_sess pa) ans0 rad_ans (pa_cli pa)];
              ans1 = (if loop_ans_nulls ao then None else ans0)
          in
          if loop_ans_ret ao \<noteq> 0 then Some (t1 @ out_label pa ans1)
          else
            (case remaining_pb K ao of
               None \<Rightarrow> None
             | Some pb \<Rightarrow>
                 Some (t1 @ (if pb \<noteq> 0 then [Log_warning pb] else [])
                          @ (case loop_ans_rad ao of
                               None \<Rightarrow> []
                             | Some r \<Rightarrow> [Finish_send r (pa_rad pa) (pa_cli pa)])
                          @ out_label pa ans1)))))"

text \<open>
  Modelled from the spec: \<^verbatim>\<open>fd_msg_send\<close> is not part of the file.  The spec has the
  callback invoked exactly once for a request that was dispatched, with the context
  that was registered and the answer or nil, and never for a request whose dispatch
  failed.  One exchange is then the iteration of the worker followed, when the request
  was sent, by the callback; \<open>answer\<close> is what the transport passes.
\<close>

definition exchange ::
  "avp_consts \<Rightarrow> stage_outcomes \<Rightarrow> answer_outcomes \<Rightarrow> diam_ref option \<Rightarrow> work_item
     \<Rightarrow> event list option" where
  "exchange K oc ao answer wi =
     (case work_th_item oc wi of
        (t, Sent pa) \<Rightarrow>
          (case receive_diam_answer K ao (Some pa) (Some answer) of
             None \<Rightarrow> None
           | Some t' \<Rightarrow> Some (t @ t'))
      | (t, _) \<Rightarrow> Some t)"

subsection \<open>Starting the workers and adding work\<close>

datatype error = ENOMEM | Errcode int

text \<open>How many threads handle messages in parallel.\<close>

definition NB_WORKERS :: nat where
  "NB_WORKERS = 2"

text \<open>
  What the callees of \<^verbatim>\<open>rgw_work_start\<close> answer: the return code of \<^verbatim>\<open>fd_fifo_new\<close>
  and that of \<^verbatim>\<open>pthread_create\<close> for the worker number \<open>i\<close>.
\<close>

record start_outcomes =
  fifo_new_ret :: int
  pthread_create_ret :: "nat \<Rightarrow> int"

text \<open>
  The loop \<^verbatim>\<open>for (i = 0; i < NB_WORKERS; i++)\<close> over the numbers still to do;
  \<^verbatim>\<open>CHECK_POSIX\<close> returns the code of the call that failed.  The second component
  lists the arguments of the threads that were created.
\<close>

fun create_workers :: "(nat \<Rightarrow> int) \<Rightarrow> nat list \<Rightarrow> (error + unit) \<times> nat list" where
  "create_workers cr [] = (Inr (), [])"
| "create_workers cr (i # todo) =
     (if cr i \<noteq> 0 then (Inl (Errcode (cr i)), [])
      else (case create_workers cr todo of (r, ths) \<Rightarrow> (r, i # ths)))"

definition rgw_work_start :: "start_outcomes \<Rightarrow> (error + unit) \<times> nat list" where
  "rgw_work_start so =
     (if fifo_new_ret so \<noteq> 0 then (Inl (Errcode (fifo_new_ret so)), [])
      else create_workers (pthread_create_ret so) [0 ..< NB_WORKERS])"

text \<open>
  What the callees of \<^verbatim>\<open>rgw_work_add\<close> answer: whether \<^verbatim>\<open>malloc\<close> gives memory, and
  the return code of \<^verbatim>\<open>fd_fifo_post\<close>.
\<close>

record add_outcomes =
  malloc_wi_ok :: bool
  post_ret :: int

text \<open>
  Modelled from the spec: the queue \<^verbatim>\<open>work_stack\<close> and \<^verbatim>\<open>fd_fifo_post\<close> are not part
  of the file.  The spec has a FIFO of (message, client) pairs; the queue is the list
  of its items, oldest first, and a post that succeeds adds the item at the end.
\<close>

definition fd_fifo_post :: "int \<Rightarrow> work_item list \<Rightarrow> work_item \<Rightarrow> work_item list" where
  "fd_fifo_post ret q new = (if ret = 0 then q @ [new] else q)"

text \<open>
  \<^verbatim>\<open>rgw_work_add(msg, client)\<close> on the queue \<open>q\<close>: the return value, the queue after the
  call and the events of the call (none: the function releases nothing).
  \<^verbatim>\<open>CHECK_MALLOC\<close> returns \<^verbatim>\<open>ENOMEM\<close>, \<^verbatim>\<open>CHECK_FCT\<close> the code of the callee.
\<close>

definition rgw_work_add ::
  "add_outcomes \<Rightarrow> work_item list \<Rightarrow> radius_ref \<Rightarrow> client_ref
     \<Rightarrow> (error + unit) \<times> work_item list \<times> event list" where
  "rgw_work_add ao q msg client =
     (if \<not> malloc_wi_ok ao then (Inl ENOMEM, q, [])
      else
        let new = \<lparr>wi_msg = msg, wi_cli = client\<rparr> in
        if post_ret ao \<noteq> 0 then (Inl (Errcode (post_ret ao)), fd_fifo_post (post_ret ao) q new, [])
        else (Inr (), fd_fifo_post (post_ret ao) q new, []))"

subsection \<open>Paths and sample runs\<close>

text \<open>
  The outcomes under which an item passes the three checks, the construction of the
  session and the plug-ins with its message still in place, and so reaches the
  completeness check.
\<close>

definition reaches_completeness :: "stage_outcomes \<Rightarrow> bool" where
  "reaches_completeness oc =
     (auth_ret oc = 0 \<and> dup_ret oc = 0 \<and> \<not> dup_nulls oc \<and> origin_ret oc = 0
      \<and> base_ret oc = 0 \<and> plg_ret oc = 0 \<and> \<not> plg_nulls oc)"

text \<open>The calls of an item up to the plug-ins, and those of the completeness check.\<close>

definition gates_trace :: "stage_outcomes \<Rightarrow> work_item \<Rightarrow> event list" where
  "gates_trace oc wi =
     [Free_wi wi, Auth_check (wi_msg wi) (wi_cli wi), Check_dup (wi_msg wi) (wi_cli wi),
      Check_origin (wi_msg wi) (wi_cli wi), Create_base (wi_msg wi) (wi_cli wi),
      Plg_loop_req (wi_msg wi) (base_sess oc) (base_diam oc) (wi_cli wi)]"

definition check_trace :: "stage_outcomes \<Rightarrow> event list" where
  "check_trace oc =
     (case plg_diam oc of None \<Rightarrow> [] | Some d \<Rightarrow> [Parse_rules d])
       @ (if diam_invalid (plg_diam oc) (parse_ret oc) then [Log_invalid_msg] else [])
       @ map Log_no_plugin (attrs_left oc)"

text \<open>
  The words of the answer check: an AVP header is mandatory or vendor-scoped when the
  flag is set, it can be ignored when its code is Route-Record or Proxy-Info, and it
  counts as unhandled when it is mandatory and either vendor-scoped or not ignorable.
\<close>

definition mandatory :: "avp_consts \<Rightarrow> avp_hdr \<Rightarrow> bool" where
  "mandatory K ahdr = (avp_flags ahdr AND AVP_FLAG_MANDATORY K \<noteq> 0)"

definition vendor_scoped :: "avp_consts \<Rightarrow> avp_hdr \<Rightarrow> bool" where
  "vendor_scoped K ahdr = (avp_flags ahdr AND AVP_FLAG_VENDOR K \<noteq> 0)"

definition ignorable :: "avp_consts \<Rightarrow> avp_hdr \<Rightarrow> bool" where
  "ignorable K ahdr =
     (avp_code ahdr = DIAM_ATTR_ROUTE_RECORD K \<or> avp_code ahdr = DIAM_ATTR_PROXY_INFO K)"

definition unhandled :: "avp_consts \<Rightarrow> avp_hdr \<Rightarrow> bool" where
  "unhandled K ahdr = (mandatory K ahdr \<and> (vendor_scoped K ahdr \<or> \<not> ignorable K ahdr))"

text \<open>An AVP whose header can be read and after which the browse goes on.\<close>

definition readable :: "avp_hdr \<Rightarrow> avp" where
  "readable ahdr = \<lparr>hdr_res = Some ahdr, next_ret = 0\<rparr>"

text \<open>
  Sample values: the flag bits and AVP codes of RFC 3588, an item, and outcomes under
  which every stage of the worker and of the callback succeeds and nothing is left
  over.
\<close>

definition rfc_consts :: avp_consts where
  "rfc_consts =
     \<lparr>AVP_FLAG_MANDATORY = 0x40, AVP_FLAG_VENDOR = 0x80,
      DIAM_ATTR_ROUTE_RECORD = 282, DIAM_ATTR_PROXY_INFO = 284\<rparr>"

definition item0 :: work_item where
  "item0 = \<lparr>wi_msg = 10, wi_cli = 20\<rparr>"

definition stages_ok :: stage_outcomes where
  "stages_ok =
     \<lparr>auth_ret = 0, dup_ret = 0, dup_nulls = False, origin_ret = 0,
      base_ret = 0, base_sess = Some 30, base_diam = Some 40,
      plg_ret = 0, plg_nulls = False, plg_sess = Some 30, plg_diam = Some 40,
      attrs_left = [], parse_ret = 0, malloc_ok = True, send_ret = 0, send_nulls = True\<rparr>"

definition answer_ok :: answer_outcomes where
  "answer_ok =
     \<lparr>new_rad_ans = Some 60, loop_ans_ret = 0, loop_ans_nulls = False,
      loop_ans_rad = Some 60, first_child_ret = 0, children = []\<rparr>"

definition pa0 :: pending_answer where
  "pa0 = \<lparr>pa_rad = 10, pa_cli = 20, pa_sess = 30\<rparr>"

text \<open>
  Five headers: mandatory and vendor-scoped, mandatory Route-Record, mandatory
  Proxy-Info, mandatory with another code (263), and not mandatory.
\<close>

definition hdrs0 :: "avp_hdr list" where
  "hdrs0 =
     [\<lparr>avp_code = 1, avp_flags = 0xC0\<rparr>, \<lparr>avp_code = 282, avp_flags = 0x40\<rparr>,
      \<lparr>avp_code = 284, avp_flags = 0x40\<rparr>, \<lparr>avp_code = 263, avp_flags = 0x40\<rparr>,
      \<lparr>avp_code = 1, avp_flags = 0\<rparr>]"

section \<open>Properties\<close>

subsection \<open>Auxiliary facts about the worker\<close>

lemma attr_loop_length: "attr_loop pb as = pb + int (length as)"
  by (induction as arbitrary: pb) auto

lemma count_list_log_no_plugin:
  "(\<And>a. e \<noteq> Log_no_plugin a) \<Longrightarrow> count_list (map Log_no_plugin as) e = 0"
  by (induction as) auto

text \<open>The ways an item goes on from the completeness check, each with its trace.\<close>

lemma work_th_item_assert:
  assumes "reaches_completeness oc" and "plg_sess oc = None"
  shows "work_th_item oc wi = (gates_trace oc wi @ check_trace oc, Assert_failed)"
  using assms
  by (simp add: work_th_item_def reaches_completeness_def gates_trace_def check_trace_def Let_def)

lemma work_th_item_abort:
  assumes "reaches_completeness oc" and "plg_sess oc = Some s"
    and "completeness_pb (plg_diam oc) (parse_ret oc) (attrs_left oc) \<noteq> 0"
  shows "work_th_item oc wi =
    (gates_trace oc wi @ check_trace oc @ [Sess_destroy s]
       @ (case plg_diam oc of None \<Rightarrow> [] | Some d \<Rightarrow> [Fd_msg_free d])
       @ [Rgw_msg_free (Some (wi_msg wi)), Clients_dispose (wi_cli wi)], Dropped)"
  using assms
  by (simp add: work_th_item_def reaches_completeness_def gates_trace_def check_trace_def Let_def)

lemma work_th_item_no_memory:
  assumes "reaches_completeness oc" and "plg_sess oc = Some s"
    and "completeness_pb (plg_diam oc) (parse_ret oc) (attrs_left oc) = 0"
    and "\<not> malloc_ok oc"
  shows "work_th_item oc wi = (gates_trace oc wi @ check_trace oc @ [Malloc_pa], Worker_exit)"
  using assms
  by (simp add: work_th_item_def reaches_completeness_def gates_trace_def check_trace_def Let_def)

lemma work_th_item_send_failed:
  assumes "reaches_completeness oc" and "plg_sess oc = Some s"
    and "completeness_pb (plg_diam oc) (parse_ret oc) (attrs_left oc) = 0"
    and "malloc_ok oc" and "send_ret oc \<noteq> 0"
  shows "work_th_item oc wi =
    (gates_trace oc wi @ check_trace oc
       @ [Malloc_pa,
          Fd_msg_send (plg_diam oc) \<lparr>pa_rad = wi_msg wi, pa_cli = wi_cli wi, pa_sess = s\<rparr>,
          Log_send_error, Sess_destroy s]
       @ (case (if send_nulls oc then None else plg_diam oc) of
            None \<Rightarrow> [] | Some d \<Rightarrow> [Fd_msg_free d])
       @ [Rgw_msg_free (Some (wi_msg wi)), Clients_dispose (wi_cli wi),
          Free_pa \<lparr>pa_rad = wi_msg wi, pa_cli = wi_cli wi, pa_sess = s\<rparr>], Dropped)"
  using assms
  by (simp add: work_th_item_def reaches_completeness_def gates_trace_def check_trace_def Let_def)

lemma work_th_item_sent:
  assumes "reaches_completeness oc" and "plg_sess oc = Some s"
    and "completeness_pb (plg_diam oc) (parse_ret oc) (attrs_left oc) = 0"
    and "malloc_ok oc" and "send_ret oc = 0"
  shows "work_th_item oc wi =
    (gates_trace oc wi @ check_trace oc
       @ [Malloc_pa,
          Fd_msg_send (plg_diam oc) \<lparr>pa_rad = wi_msg wi, pa_cli = wi_cli wi, pa_sess = s\<rparr>],
     Sent \<lparr>pa_rad = wi_msg wi, pa_cli = wi_cli wi, pa_sess = s\<rparr>)"
  using assms
  by (simp add: work_th_item_def reaches_completeness_def gates_trace_def check_trace_def Let_def)

text \<open>Neither the checks nor the plug-in call release or dispatch anything.\<close>

lemma count_gates_trace:
  "count_list (gates_trace oc wi) (Sess_destroy s) = 0"
  "count_list (gates_trace oc wi) (Fd_msg_free d) = 0"
  "count_list (gates_trace oc wi) (Rgw_msg_free r) = 0"
  "count_list (gates_trace oc wi) (Clients_dispose c) = 0"
  "count_list (gates_trace oc wi) (Free_pa pa) = 0"
  "count_list (gates_trace oc wi) (Fd_msg_send dm pa) = 0"
  "count_list (gates_trace oc wi) Malloc_pa = 0"
  by (simp_all add: gates_trace_def)

lemma count_check_trace:
  "count_list (check_trace oc) (Sess_destroy s) = 0"
  "count_list (check_trace oc) (Fd_msg_free d) = 0"
  "count_list (check_trace oc) (Rgw_msg_free r) = 0"
  "count_list (check_trace oc) (Clients_dispose c) = 0"
  "count_list (check_trace oc) (Free_pa pa) = 0"
  "count_list (check_trace oc) (Fd_msg_send dm pa) = 0"
  "count_list (check_trace oc) Malloc_pa = 0"
  by (simp_all add: check_trace_def count_list_log_no_plugin split: option.splits)

subsection \<open>The completeness check\<close>

text \<open>
  Claim C3.  For an item that reaches the completeness check with its session in
  place (the code asserts \<^verbatim>\<open>session != NULL\<close>): with \<open>k\<close> attributes left in the RADIUS
  message the counter is \<open>k\<close>, plus one when the Diameter message is missing or
  \<^verbatim>\<open>fd_msg_parse_rules\<close> rejects it.  When the counter is not zero the iteration ends
  with \<^verbatim>\<open>continue\<close>; its trace destroys the session once, frees the Diameter message
  once when there is one (and frees nothing else), frees the RADIUS message once,
  releases the client once and holds no \<^verbatim>\<open>fd_msg_send\<close>; the worker goes on with the
  next item.
\<close>

theorem completeness_check_counts_and_aborts:
  assumes "reaches_completeness oc" and "plg_sess oc = Some s"
  shows "completeness_pb (plg_diam oc) (parse_ret oc) (attrs_left oc)
           = int (length (attrs_left oc))
               + (if plg_diam oc = None \<or> parse_ret oc \<noteq> 0 then 1 else 0)
       \<and> (completeness_pb (plg_diam oc) (parse_ret oc) (attrs_left oc) \<noteq> 0 \<longrightarrow>
            snd (work_th_item oc wi) = Dropped
          \<and> count_list (fst (work_th_item oc wi)) (Sess_destroy s) = 1
          \<and> (\<forall>d. count_list (fst (work_th_item oc wi)) (Fd_msg_free d)
                   = (if plg_diam oc = Some d then 1 else 0))
          \<and> count_list (fst (work_th_item oc wi)) (Rgw_msg_free (Some (wi_msg wi))) = 1
          \<and> count_list (fst (work_th_item oc wi)) (Clients_dispose (wi_cli wi)) = 1
          \<and> (\<forall>dm pa. count_list (fst (work_th_item oc wi)) (Fd_msg_send dm pa) = 0)
          \<and> work_th ((oc, wi) # rest) = fst (work_th_item oc wi) @ work_th rest)"
proof -
  have pb: "completeness_pb (plg_diam oc) (parse_ret oc) (attrs_left oc)
           = int (length (attrs_left oc))
               + (if plg_diam oc = None \<or> parse_ret oc \<noteq> 0 then 1 else 0)"
    by (simp add: completeness_pb_def diam_invalid_def attr_loop_length split: option.splits)
  have ab: "snd (work_th_item oc wi) = Dropped
          \<and> count_list (fst (work_th_item oc wi)) (Sess_destroy s) = 1
          \<and> (\<forall>d. count_list (fst (work_th_item oc wi)) (Fd_msg_free d)
                   = (if plg_diam oc = Some d then 1 else 0))
          \<and> count_list (fst (work_th_item oc wi)) (Rgw_msg_free (Some (wi_msg wi))) = 1
          \<and> count_list (fst (work_th_item oc wi)) (Clients_dispose (wi_cli wi)) = 1
          \<and> (\<forall>dm pa. count_list (fst (work_th_item oc wi)) (Fd_msg_send dm pa) = 0)
          \<and> work_th ((oc, wi) # rest) = fst (work_th_item oc wi) @ work_th rest"
    if nz: "completeness_pb (plg_diam oc) (parse_ret oc) (attrs_left oc) \<noteq> 0"
    by (simp add: work_th_item_abort [OF assms nz] count_gates_trace count_check_trace
          split: option.splits)
  from pb ab show ?thesis by blast
qed

text \<open>
  A run of it: one attribute that no plug-in took, a valid Diameter message.  The
  counter is 1 and the item is dropped with everything released.
\<close>

theorem completeness_check_counts_and_aborts_witness:
  "reaches_completeness (stages_ok\<lparr>attrs_left := [1]\<rparr>)
   \<and> plg_sess (stages_ok\<lparr>attrs_left := [1]\<rparr>) = Some 30
   \<and> completeness_pb (Some 40) 0 [1] = 1
   \<and> snd (work_th_item (stages_ok\<lparr>attrs_left := [1]\<rparr>) item0) = Dropped
   \<and> count_list (fst (work_th_item (stages_ok\<lparr>attrs_left := [1]\<rparr>) item0)) (Sess_destroy 30) = 1
   \<and> count_list (fst (work_th_item (stages_ok\<lparr>attrs_left := [1]\<rparr>) item0)) (Fd_msg_free 40) = 1
   \<and> count_list (fst (work_th_item (stages_ok\<lparr>attrs_left := [1]\<rparr>) item0))
        (Rgw_msg_free (Some 10)) = 1
   \<and> count_list (fst (work_th_item (stages_ok\<lparr>attrs_left := [1]\<rparr>) item0))
        (Clients_dispose 20) = 1"
proof -
  have r: "reaches_completeness (stages_ok\<lparr>attrs_left := [1]\<rparr>)"
    by (simp add: reaches_completeness_def stages_ok_def)
  have s: "plg_sess (stages_ok\<lparr>attrs_left := [1]\<rparr>) = Some 30"
    by (simp add: stages_ok_def)
  show ?thesis
    using r s completeness_check_counts_and_aborts [OF r s, of item0 "[]"]
    by (simp add: stages_ok_def item0_def)
qed

subsection \<open>The duplicate check\<close>

text \<open>
  Claim C8.  When the authenticator check passes and \<^verbatim>\<open>rgw_clients_check_dup\<close> returns 0
  with \<^verbatim>\<open>msg\<close> set to \<^verbatim>\<open>NULL\<close>, the iteration consists of the two checks and one
  \<^verbatim>\<open>rgw_clients_dispose\<close>, then \<^verbatim>\<open>continue\<close>: no \<^verbatim>\<open>rgw_msg_create_base\<close>, so no session
  and no Diameter message, no \<^verbatim>\<open>rgw_msg_free\<close> and no later call on the message.  The
  worker goes on with the next item.
\<close>

theorem duplicate_releases_only_client:
  assumes "auth_ret oc = 0" and "dup_ret oc = 0" and "dup_nulls oc"
  shows "work_th_item oc wi =
           ([Free_wi wi, Auth_check (wi_msg wi) (wi_cli wi), Check_dup (wi_msg wi) (wi_cli wi),
             Clients_dispose (wi_cli wi)], Dropped)
       \<and> work_th ((oc, wi) # rest) =
           [Free_wi wi, Auth_check (wi_msg wi) (wi_cli wi), Check_dup (wi_msg wi) (wi_cli wi),
            Clients_dispose (wi_cli wi)] @ work_th rest"
  using assms by (simp add: work_th_item_def Let_def)

theorem duplicate_releases_only_client_witness:
  "auth_ret (stages_ok\<lparr>dup_nulls := True\<rparr>) = 0
   \<and> dup_ret (stages_ok\<lparr>dup_nulls := True\<rparr>) = 0
   \<and> dup_nulls (stages_ok\<lparr>dup_nulls := True\<rparr>)
   \<and> work_th_item (stages_ok\<lparr>dup_nulls := True\<rparr>) item0 =
        ([Free_wi item0, Auth_check 10 20, Check_dup 10 20, Clients_dispose 20], Dropped)
   \<and> work_th [(stages_ok\<lparr>dup_nulls := True\<rparr>, item0)] =
        [Free_wi item0, Auth_check 10 20, Check_dup 10 20, Clients_dispose 20]"
  using duplicate_releases_only_client [of "stages_ok\<lparr>dup_nulls := True\<rparr>" item0 "[]"]
  by (simp add: stages_ok_def item0_def)

subsection \<open>A failed dispatch\<close>

text \<open>
  Claim C7.  For an item that passes the completeness check and gets its
  \<^verbatim>\<open>pending_answer\<close>, a \<^verbatim>\<open>fd_msg_send\<close> that returns an error makes the worker destroy
  the session once, free the Diameter message once (the completeness check has
  made sure that there is one; nothing is freed when the failed call has taken it and
  set \<^verbatim>\<open>diam_msg\<close> to \<^verbatim>\<open>NULL\<close>), free the RADIUS message once, release the client once and
  free the \<^verbatim>\<open>pending_answer\<close> that it allocated once.  The iteration ends with
  \<^verbatim>\<open>continue\<close>, so the worker goes on with the next item, and the exchange consists of
  the worker's calls alone: the callback does not run.
\<close>

theorem dispatch_failure_releases_inline:
  assumes "reaches_completeness oc" and "plg_sess oc = Some s"
    and "completeness_pb (plg_diam oc) (parse_ret oc) (attrs_left oc) = 0"
    and "malloc_ok oc" and "send_ret oc \<noteq> 0"
  shows "snd (work_th_item oc wi) = Dropped
       \<and> count_list (fst (work_th_item oc wi)) (Sess_destroy s) = 1
       \<and> (\<forall>d. count_list (fst (work_th_item oc wi)) (Fd_msg_free d)
                = (if plg_diam oc = Some d \<and> \<not> send_nulls oc then 1 else 0))
       \<and> plg_diam oc \<noteq> None
       \<and> count_list (fst (work_th_item oc wi)) (Rgw_msg_free (Some (wi_msg wi))) = 1
       \<and> count_list (fst (work_th_item oc wi)) (Clients_dispose (wi_cli wi)) = 1
       \<and> count_list (fst (work_th_item oc wi))
            (Free_pa \<lparr>pa_rad = wi_msg wi, pa_cli = wi_cli wi, pa_sess = s\<rparr>) = 1
       \<and> count_list (fst (work_th_item oc wi)) Malloc_pa = 1
       \<and> work_th ((oc, wi) # rest) = fst (work_th_item oc wi) @ work_th rest
       \<and> exchange K oc ao answer wi = Some (fst (work_th_item oc wi))"
proof -
  have "plg_diam oc \<noteq> None"
    using assms(3)
    by (cases "plg_diam oc") (simp_all add: completeness_pb_def diam_invalid_def attr_loop_length)
  then show ?thesis
    by (simp add: work_th_item_send_failed [OF assms] count_gates_trace count_check_trace
          exchange_def split: option.splits)
qed

text \<open>A run of it: every stage passes, then the send fails and leaves the message.\<close>

theorem dispatch_failure_releases_inline_witness:
  "reaches_completeness (stages_ok\<lparr>send_ret := 1, send_nulls := False\<rparr>)
   \<and> completeness_pb (Some 40) 0 [] = 0
   \<and> work_th_item (stages_ok\<lparr>send_ret := 1, send_nulls := False\<rparr>) item0 =
       ([Free_wi item0, Auth_check 10 20, Check_dup 10 20, Check_origin 10 20,
         Create_base 10 20, Plg_loop_req 10 (Some 30) (Some 40) 20, Parse_rules 40,
         Malloc_pa, Fd_msg_send (Some 40) pa0, Log_send_error, Sess_destroy 30,
         Fd_msg_free 40, Rgw_msg_free (Some 10), Clients_dispose 20, Free_pa pa0], Dropped)
   \<and> count_list (fst (work_th_item (stages_ok\<lparr>send_ret := 1, send_nulls := False\<rparr>) item0))
        (Fd_msg_free 40) = 1
   \<and> exchange rfc_consts (stages_ok\<lparr>send_ret := 1, send_nulls := False\<rparr>) answer_ok (Some 50)
        item0
       = Some (fst (work_th_item (stages_ok\<lparr>send_ret := 1, send_nulls := False\<rparr>) item0))"
proof -
  have r: "reaches_completeness (stages_ok\<lparr>send_ret := 1, send_nulls := False\<rparr>)"
    by (simp add: reaches_completeness_def stages_ok_def)
  have s: "plg_sess (stages_ok\<lparr>send_ret := 1, send_nulls := False\<rparr>) = Some 30"
    by (simp add: stages_ok_def)
  have z: "completeness_pb (plg_diam (stages_ok\<lparr>send_ret := 1, send_nulls := False\<rparr>))
             (parse_ret (stages_ok\<lparr>send_ret := 1, send_nulls := False\<rparr>))
             (attrs_left (stages_ok\<lparr>send_ret := 1, send_nulls := False\<rparr>)) = 0"
    by (simp add: stages_ok_def completeness_pb_def diam_invalid_def)
  have m: "malloc_ok (stages_ok\<lparr>send_ret := 1, send_nulls := False\<rparr>)"
    by (simp add: stages_ok_def)
  have f: "send_ret (stages_ok\<lparr>send_ret := 1, send_nulls := False\<rparr>) \<noteq> 0"
    by simp
  have t: "work_th_item (stages_ok\<lparr>send_ret := 1, send_nulls := False\<rparr>) item0 =
       ([Free_wi item0, Auth_check 10 20, Check_dup 10 20, Check_origin 10 20,
         Create_base 10 20, Plg_loop_req 10 (Some 30) (Some 40) 20, Parse_rules 40,
         Malloc_pa, Fd_msg_send (Some 40) pa0, Log_send_error, Sess_destroy 30,
         Fd_msg_free 40, Rgw_msg_free (Some 10), Clients_dispose 20, Free_pa pa0], Dropped)"
    by (simp add: work_th_item_def stages_ok_def item0_def pa0_def Let_def
          completeness_pb_def diam_invalid_def)
  have z': "completeness_pb (Some 40) 0 [] = 0"
    by (simp add: completeness_pb_def diam_invalid_def)
  from dispatch_failure_releases_inline [OF r s z m f, of item0 "[]" rfc_consts answer_ok "Some 50"]
  show ?thesis using r z' t by simp
qed

subsection \<open>A failed plug-in chain\<close>

text \<open>After a failed \<^verbatim>\<open>rgw_plg_loop_req\<close> the worker frees the RADIUS message and releases
  the client, and that is all.\<close>

lemma plugin_failure_trace:
  assumes "auth_ret oc = 0" and "dup_ret oc = 0" and "\<not> dup_nulls oc" and "origin_ret oc = 0"
    and "base_ret oc = 0" and "plg_ret oc \<noteq> 0"
  shows "work_th_item oc wi =
    (gates_trace oc wi
       @ [Rgw_msg_free (if plg_nulls oc then None else Some (wi_msg wi)),
          Clients_dispose (wi_cli wi)], Dropped)"
  using assms by (simp add: work_th_item_def gates_trace_def Let_def)

text \<open>
  Claim C2 fails on the code.  The claim has the abort path after a failed plug-in
  chain discard the session and the Diameter message.  In this run
  \<^verbatim>\<open>rgw_msg_create_base\<close> has made the session 30 and the Diameter message 40, and
  \<^verbatim>\<open>rgw_plg_loop_req\<close> returns an error and leaves both in place.  The worker frees the
  RADIUS message and releases the client, then goes on: it calls neither
  \<^verbatim>\<open>fd_sess_destroy\<close> nor \<^verbatim>\<open>fd_msg_free\<close>, and the two local variables are overwritten
  in the next iteration.  The abort paths of the completeness check and of the failed
  dispatch release both.
\<close>

theorem plugin_failure_keeps_session:
  "work_th_item (stages_ok\<lparr>plg_ret := 1\<rparr>) item0 =
     ([Free_wi item0, Auth_check 10 20, Check_dup 10 20, Check_origin 10 20, Create_base 10 20,
       Plg_loop_req 10 (Some 30) (Some 40) 20, Rgw_msg_free (Some 10), Clients_dispose 20],
      Dropped)
   \<and> count_list (fst (work_th_item (stages_ok\<lparr>plg_ret := 1\<rparr>) item0)) (Sess_destroy 30) = 0
   \<and> count_list (fst (work_th_item (stages_ok\<lparr>plg_ret := 1\<rparr>) item0)) (Fd_msg_free 40) = 0"
  by (simp add: work_th_item_def stages_ok_def item0_def Let_def)

subsection \<open>Adding work\<close>

text \<open>
  Claim C10.  When \<^verbatim>\<open>malloc\<close> gives no memory for the work item, \<^verbatim>\<open>rgw_work_add\<close> returns
  \<^verbatim>\<open>ENOMEM\<close>, leaves the queue as it was and makes no call at all: it releases neither
  the message nor the client, which stay with the caller.
\<close>

theorem rgw_work_add_no_memory:
  "\<not> malloc_wi_ok ao \<Longrightarrow> rgw_work_add ao q msg client = (Inl ENOMEM, q, [])"
  by (simp add: rgw_work_add_def)

theorem rgw_work_add_no_memory_witness:
  "\<not> malloc_wi_ok \<lparr>malloc_wi_ok = False, post_ret = 0\<rparr>
   \<and> rgw_work_add \<lparr>malloc_wi_ok = False, post_ret = 0\<rparr> [item0] 11 21 = (Inl ENOMEM, [item0], [])"
  using rgw_work_add_no_memory [of "\<lparr>malloc_wi_ok = False, post_ret = 0\<rparr>" "[item0]" 11 21]
  by simp

subsection \<open>The number of workers\<close>

lemma upt_NB_WORKERS: "[0 ..< NB_WORKERS] = [0, 1]"
  by (simp add: NB_WORKERS_def upt_rec)

lemma rgw_work_start_cases:
  "rgw_work_start so =
     (if fifo_new_ret so \<noteq> 0 then (Inl (Errcode (fifo_new_ret so)), [])
      else if pthread_create_ret so 0 \<noteq> 0 then (Inl (Errcode (pthread_create_ret so 0)), [])
      else if pthread_create_ret so 1 \<noteq> 0 then (Inl (Errcode (pthread_create_ret so 1)), [0])
      else (Inr (), [0, 1]))"
  by (simp add: rgw_work_start_def upt_NB_WORKERS)

text \<open>
  Claim C9 as stated fails on the code: the claim has the number of workers
  configurable as any integer from 1 on.  \<^verbatim>\<open>rgw_work_start\<close> takes no argument and reads
  no configuration; the number is the macro \<^verbatim>\<open>NB_WORKERS\<close>, which is 2.  No outcome of
  its callees makes it start a pool of three workers.
\<close>

theorem pool_size_three_counterexample:
  "\<not> (\<exists>so. fst (rgw_work_start so) = Inr () \<and> length (snd (rgw_work_start so)) = 3)"
  by (simp add: rgw_work_start_cases)

text \<open>
  Claim C9 as amended.  The number of workers is the constant \<^verbatim>\<open>NB_WORKERS\<close> = 2.
  \<^verbatim>\<open>rgw_work_start\<close> never creates more than two threads; when it succeeds it has
  created exactly the two workers 0 and 1, and it succeeds when \<^verbatim>\<open>fd_fifo_new\<close> and both
  \<^verbatim>\<open>pthread_create\<close> do.
\<close>

theorem rgw_work_start_fixed_pool:
  "NB_WORKERS = 2
   \<and> length (snd (rgw_work_start so)) \<le> 2
   \<and> (fst (rgw_work_start so) = Inr () \<longrightarrow> snd (rgw_work_start so) = [0, 1])
   \<and> (fifo_new_ret so = 0 \<and> pthread_create_ret so 0 = 0 \<and> pthread_create_ret so 1 = 0
        \<longrightarrow> rgw_work_start so = (Inr (), [0, 1]))"
  by (simp add: rgw_work_start_cases NB_WORKERS_def)

theorem rgw_work_start_fixed_pool_witness:
  "fifo_new_ret \<lparr>fifo_new_ret = 0, pthread_create_ret = (\<lambda>i. 0)\<rparr> = 0
   \<and> fst (rgw_work_start \<lparr>fifo_new_ret = 0, pthread_create_ret = (\<lambda>i. 0)\<rparr>) = Inr ()
   \<and> rgw_work_start \<lparr>fifo_new_ret = 0, pthread_create_ret = (\<lambda>i. 0)\<rparr> = (Inr (), [0, 1])"
  using rgw_work_start_fixed_pool [of "\<lparr>fifo_new_ret = 0, pthread_create_ret = (\<lambda>i. 0)\<rparr>"]
  by simp

subsection \<open>Auxiliary facts about the answer callback\<close>

lemma avp_loop_Nil: "avp_loop K pb [] = Some pb"
  by (subst avp_loop.simps) simp

lemma avp_loop_Cons:
  "hdr_res a = Some ahdr \<Longrightarrow>
   avp_loop K pb (a # rest) =
     (if next_ret a \<noteq> 0 then Some (pb + check_avp K ahdr + 1)
      else avp_loop K (pb + check_avp K ahdr) rest)"
  by (subst avp_loop.simps) simp

text \<open>The loop ends when every header on the chain can be read.\<close>

lemma avp_loop_returns:
  "\<forall>a \<in> set avps. hdr_res a \<noteq> None \<Longrightarrow> \<exists>pb'. avp_loop K pb avps = Some pb'"
proof (induction avps arbitrary: pb)
  case Nil
  show ?case by (simp add: avp_loop_Nil)
next
  case (Cons a avps)
  then obtain ahdr where h: "hdr_res a = Some ahdr" by auto
  from Cons show ?case by (simp add: avp_loop_Cons [OF h])
qed

text \<open>It does not end on an AVP whose header cannot be read.\<close>

lemma avp_loop_stuck:
  assumes "avp_loop K pb avps = Some r"
  shows "avps = [] \<or> hdr_res (hd avps) \<noteq> None"
  by (rule avp_loop.raw_induct
        [where P = "\<lambda>K pb avps r. avps = [] \<or> hdr_res (hd avps) \<noteq> None", OF _ assms])
     (fastforce split: list.splits option.splits if_splits)

lemma avp_loop_unreadable: "hdr_res a = None \<Longrightarrow> avp_loop K pb (a # rest) = None"
  using avp_loop_stuck [of K pb "a # rest"] by (cases "avp_loop K pb (a # rest)") auto

lemma check_avp_unhandled: "check_avp K ahdr = (if unhandled K ahdr then 1 else 0)"
  by (simp add: check_avp_def unhandled_def mandatory_def vendor_scoped_def ignorable_def)

lemma avp_loop_readable:
  "avp_loop K pb (map readable hs) = Some (pb + int (length (filter (unhandled K) hs)))"
proof (induction hs arbitrary: pb)
  case Nil
  show ?case by (simp add: avp_loop_Nil)
next
  case (Cons h hs)
  have "avp_loop K pb (map readable (h # hs)) = avp_loop K (pb + check_avp K h) (map readable hs)"
    using avp_loop_Cons [of "readable h" h K pb "map readable hs"] by (simp add: readable_def)
  then show ?case by (simp add: Cons.IH check_avp_unhandled)
qed

lemma remaining_pb_returns:
  "\<forall>a \<in> set (children ao). hdr_res a \<noteq> None \<Longrightarrow> \<exists>pb. remaining_pb K ao = Some pb"
  by (simp add: remaining_pb_def avp_loop_returns)

lemma count_out_label:
  "count_list (out_label pa ans) (Sess_destroy s) = (if s = pa_sess pa then 1 else 0)"
  "count_list (out_label pa ans) (Clients_dispose c) = (if c = pa_cli pa then 1 else 0)"
  "count_list (out_label pa ans) (Free_pa pa') = (if pa' = pa then 1 else 0)"
  "count_list (out_label pa ans) (Fd_msg_free d) = (if ans = Some d then 1 else 0)"
  "count_list (out_label pa ans) (Rgw_msg_free r) = 0"
  by (auto simp: out_label_def split: option.splits)

text \<open>With a null pointer for either parameter the callback returns at once.\<close>

lemma receive_diam_answer_null_params:
  "receive_diam_answer K ao None ans = Some []"
  "receive_diam_answer K ao (Some pa) None = Some []"
  by (simp_all add: receive_diam_answer_def)

subsection \<open>The semantic-loss check\<close>

text \<open>
  Claim C4.  When the first browse succeeds and the chain of AVPs is walked to its end
  (every header is read, every browse to the next AVP succeeds), the counter is the
  number of headers that are unhandled: mandatory, and vendor-scoped or not
  ignorable.  Header by header: a mandatory vendor-scoped AVP adds one; a mandatory
  AVP that is not vendor-scoped adds nothing when its code is Route-Record or
  Proxy-Info and one otherwise; an AVP that is not mandatory adds nothing.
\<close>

theorem semantic_loss_count:
  "(first_child_ret ao = 0 \<and> children ao = map readable hs
      \<longrightarrow> remaining_pb K ao = Some (int (length (filter (unhandled K) hs))))
   \<and> (mandatory K ahdr \<and> vendor_scoped K ahdr \<longrightarrow> check_avp K ahdr = 1)
   \<and> (mandatory K ahdr \<and> \<not> vendor_scoped K ahdr \<and> ignorable K ahdr \<longrightarrow> check_avp K ahdr = 0)
   \<and> (mandatory K ahdr \<and> \<not> vendor_scoped K ahdr \<and> \<not> ignorable K ahdr \<longrightarrow> check_avp K ahdr = 1)
   \<and> (\<not> mandatory K ahdr \<longrightarrow> check_avp K ahdr = 0)
   \<and> (unhandled K ahdr \<longleftrightarrow> check_avp K ahdr = 1)"
  by (simp add: remaining_pb_def avp_loop_readable check_avp_unhandled unhandled_def)

text \<open>The five sample headers give the count 2: the vendor-scoped one and code 263.\<close>

theorem semantic_loss_count_witness:
  "first_child_ret (answer_ok\<lparr>children := map readable hdrs0\<rparr>) = 0
   \<and> remaining_pb rfc_consts (answer_ok\<lparr>children := map readable hdrs0\<rparr>) = Some 2
   \<and> mandatory rfc_consts \<lparr>avp_code = 1, avp_flags = 0xC0\<rparr>
   \<and> vendor_scoped rfc_consts \<lparr>avp_code = 1, avp_flags = 0xC0\<rparr>
   \<and> check_avp rfc_consts \<lparr>avp_code = 1, avp_flags = 0xC0\<rparr> = 1
   \<and> mandatory rfc_consts \<lparr>avp_code = 282, avp_flags = 0x40\<rparr>
   \<and> \<not> vendor_scoped rfc_consts \<lparr>avp_code = 282, avp_flags = 0x40\<rparr>
   \<and> ignorable rfc_consts \<lparr>avp_code = 282, avp_flags = 0x40\<rparr>
   \<and> check_avp rfc_consts \<lparr>avp_code = 282, avp_flags = 0x40\<rparr> = 0
   \<and> \<not> ignorable rfc_consts \<lparr>avp_code = 263, avp_flags = 0x40\<rparr>
   \<and> check_avp rfc_consts \<lparr>avp_code = 263, avp_flags = 0x40\<rparr> = 1
   \<and> \<not> mandatory rfc_consts \<lparr>avp_code = 1, avp_flags = 0\<rparr>
   \<and> check_avp rfc_consts \<lparr>avp_code = 1, avp_flags = 0\<rparr> = 0"
  using semantic_loss_count
          [of "answer_ok\<lparr>children := map readable hdrs0\<rparr>" hdrs0 rfc_consts
              "\<lparr>avp_code = 1, avp_flags = 0xC0\<rparr>"]
        semantic_loss_count
          [of "answer_ok\<lparr>children := map readable hdrs0\<rparr>" hdrs0 rfc_consts
              "\<lparr>avp_code = 282, avp_flags = 0x40\<rparr>"]
        semantic_loss_count
          [of "answer_ok\<lparr>children := map readable hdrs0\<rparr>" hdrs0 rfc_consts
              "\<lparr>avp_code = 263, avp_flags = 0x40\<rparr>"]
        semantic_loss_count
          [of "answer_ok\<lparr>children := map readable hdrs0\<rparr>" hdrs0 rfc_consts
              "\<lparr>avp_code = 1, avp_flags = 0\<rparr>"]
  by (simp add: answer_ok_def hdrs0_def unhandled_def mandatory_def vendor_scoped_def
        ignorable_def rfc_consts_def)

subsection \<open>Delivery of the reply\<close>

text \<open>
  Claim C5.  When the reply is allocated, the plug-ins succeed and leave a reply
  \<open>r\<close>, and the semantic-loss check ends with the count \<open>pb\<close>, the callback hands \<open>r\<close> to
  \<^verbatim>\<open>rgw_client_finish_send\<close> whatever \<open>pb\<close> is.  A count that is not zero adds the
  warning to the trace and changes nothing else.
\<close>

theorem unhandled_count_only_warns:
  assumes "new_rad_ans ao = Some r0" and "loop_ans_ret ao = 0"
    and "remaining_pb K ao = Some pb" and "loop_ans_rad ao = Some r"
  shows "receive_diam_answer K ao (Some pa) (Some a) =
     Some ([Radius_msg_new, Plg_loop_ans (pa_rad pa) (pa_sess pa) a r0 (pa_cli pa)]
            @ (if pb \<noteq> 0 then [Log_warning pb] else [])
            @ [Finish_send r (pa_rad pa) (pa_cli pa)]
            @ out_label pa (if loop_ans_nulls ao then None else a))"
  using assms by (simp add: receive_diam_answer_def Let_def)

text \<open>A run of it: the answer holds one mandatory vendor-scoped AVP; the callback
  warns about one AVP and sends the reply.\<close>

theorem unhandled_count_only_warns_witness:
  "new_rad_ans (answer_ok\<lparr>children := [readable \<lparr>avp_code = 1, avp_flags = 0xC0\<rparr>]\<rparr>) = Some 60
   \<and> loop_ans_ret (answer_ok\<lparr>children := [readable \<lparr>avp_code = 1, avp_flags = 0xC0\<rparr>]\<rparr>) = 0
   \<and> remaining_pb rfc_consts
         (answer_ok\<lparr>children := [readable \<lparr>avp_code = 1, avp_flags = 0xC0\<rparr>]\<rparr>) = Some 1
   \<and> loop_ans_rad (answer_ok\<lparr>children := [readable \<lparr>avp_code = 1, avp_flags = 0xC0\<rparr>]\<rparr>)
        = Some 60
   \<and> receive_diam_answer rfc_consts
         (answer_ok\<lparr>children := [readable \<lparr>avp_code = 1, avp_flags = 0xC0\<rparr>]\<rparr>)
         (Some pa0) (Some (Some 50)) =
       Some [Radius_msg_new, Plg_loop_ans 10 30 (Some 50) 60 20, Log_warning 1,
             Finish_send 60 10 20, Sess_destroy 30, Fd_msg_free 50, Clients_dispose 20,
             Free_pa pa0]"
proof -
  let ?ao = "answer_ok\<lparr>children := [readable \<lparr>avp_code = 1, avp_flags = 0xC0\<rparr>]\<rparr>"
  have n: "new_rad_ans ?ao = Some 60" and l: "loop_ans_ret ?ao = 0"
    and r: "loop_ans_rad ?ao = Some 60"
    by (simp_all add: answer_ok_def)
  have p: "remaining_pb rfc_consts ?ao = Some 1"
    using avp_loop_readable [of rfc_consts 0 "[\<lparr>avp_code = 1, avp_flags = 0xC0\<rparr>]"]
    by (simp add: remaining_pb_def answer_ok_def unhandled_def mandatory_def vendor_scoped_def
          rfc_consts_def)
  from unhandled_count_only_warns [OF n l p r, of pa0 "Some 50"]
  show ?thesis using n l p r by (simp add: out_label_def pa0_def answer_ok_def)
qed

subsection \<open>The releases of the answer callback\<close>

text \<open>
  Claim C6.  The callback is entered with its \<^verbatim>\<open>pending_answer\<close> and the address of the
  answer variable (with a null pointer for either, \<^verbatim>\<open>CHECK_PARAMS_DO\<close> returns at once
  and nothing is touched).  It returns whenever every header of the chain can be
  read.  Whenever it returns, by whichever path (no memory for the reply, failed
  plug-ins, failed browse, failed send, or none of these), its trace destroys the
  session of the \<^verbatim>\<open>pending_answer\<close> once, releases its client once and frees the
  \<^verbatim>\<open>pending_answer\<close> once; and it frees the answer once when the variable still holds it
  at the label \<^verbatim>\<open>out:\<close>, that is, when an answer was passed and the plug-ins have not
  set the variable to \<^verbatim>\<open>NULL\<close>.  It calls \<^verbatim>\<open>fd_msg_free\<close> on nothing else.
\<close>

theorem answer_callback_cleanup:
  "((\<forall>x \<in> set (children ao). hdr_res x \<noteq> None)
      \<longrightarrow> receive_diam_answer K ao (Some pa) (Some a) \<noteq> None)
   \<and> (receive_diam_answer K ao (Some pa) (Some a) = Some t \<longrightarrow>
        count_list t (Sess_destroy (pa_sess pa)) = 1
      \<and> count_list t (Clients_dispose (pa_cli pa)) = 1
      \<and> count_list t (Free_pa pa) = 1
      \<and> (\<forall>d. count_list t (Fd_msg_free d)
               = (if a = Some d \<and> \<not> (new_rad_ans ao \<noteq> None \<and> loop_ans_nulls ao) then 1 else 0)))"
proof -
  have ret: "receive_diam_answer K ao (Some pa) (Some a) \<noteq> None"
    if "\<forall>x \<in> set (children ao). hdr_res x \<noteq> None"
    using remaining_pb_returns [OF that, of K]
    by (auto simp: receive_diam_answer_def Let_def split: option.splits)
  have cnt: "count_list t (Sess_destroy (pa_sess pa)) = 1
      \<and> count_list t (Clients_dispose (pa_cli pa)) = 1
      \<and> count_list t (Free_pa pa) = 1
      \<and> (\<forall>d. count_list t (Fd_msg_free d)
               = (if a = Some d \<and> \<not> (new_rad_ans ao \<noteq> None \<and> loop_ans_nulls ao) then 1 else 0))"
    if "receive_diam_answer K ao (Some pa) (Some a) = Some t"
    using that
    by (auto simp: receive_diam_answer_def Let_def count_out_label split: option.splits if_splits)
  from ret cnt show ?thesis by blast
qed

text \<open>A run of it: the answer 50 with the five sample headers left in it.\<close>

theorem answer_callback_cleanup_witness:
  "list_all (\<lambda>x. hdr_res x \<noteq> None) (children (answer_ok\<lparr>children := map readable hdrs0\<rparr>))
   \<and> receive_diam_answer rfc_consts (answer_ok\<lparr>children := map readable hdrs0\<rparr>)
         (Some pa0) (Some (Some 50)) =
       Some [Radius_msg_new, Plg_loop_ans 10 30 (Some 50) 60 20, Log_warning 2,
             Finish_send 60 10 20, Sess_destroy 30, Fd_msg_free 50, Clients_dispose 20,
             Free_pa pa0]
   \<and> count_list [Radius_msg_new, Plg_loop_ans 10 30 (Some 50) 60 20, Log_warning 2,
             Finish_send 60 10 20, Sess_destroy 30, Fd_msg_free 50, Clients_dispose 20,
             Free_pa pa0] (Sess_destroy (pa_sess pa0)) = 1
   \<and> count_list [Radius_msg_new, Plg_loop_ans 10 30 (Some 50) 60 20, Log_warning 2,
             Finish_send 60 10 20, Sess_destroy 30, Fd_msg_free 50, Clients_dispose 20,
             Free_pa pa0] (Fd_msg_free 50) = 1"
proof -
  let ?ao = "answer_ok\<lparr>children := map readable hdrs0\<rparr>"
  let ?t = "[Radius_msg_new, Plg_loop_ans 10 30 (Some 50) 60 20, Log_warning 2,
             Finish_send 60 10 20, Sess_destroy 30, Fd_msg_free 50, Clients_dispose 20,
             Free_pa pa0]"
  have h: "\<forall>x \<in> set (children ?ao). hdr_res x \<noteq> None"
    by (simp add: readable_def)
  have p: "remaining_pb rfc_consts ?ao = Some 2"
    using avp_loop_readable [of rfc_consts 0 hdrs0]
    by (simp add: remaining_pb_def answer_ok_def hdrs0_def unhandled_def mandatory_def
          vendor_scoped_def ignorable_def rfc_consts_def)
  have t: "receive_diam_answer rfc_consts ?ao (Some pa0) (Some (Some 50)) = Some ?t"
    using p by (simp add: receive_diam_answer_def Let_def out_label_def pa0_def answer_ok_def)
  from answer_callback_cleanup [of ?ao rfc_consts pa0 "Some 50" ?t]
  show ?thesis using h t by (simp add: list_all_iff)
qed

subsection \<open>The RADIUS message and the client over a whole exchange\<close>

text \<open>
  An iteration that ends with \<^verbatim>\<open>continue\<close> and nothing dispatched releases the client
  once, and frees the RADIUS message once unless a callee has taken it and set \<^verbatim>\<open>msg\<close>
  to \<^verbatim>\<open>NULL\<close> on the way.
\<close>

lemma count_list_log_no_plugin_release:
  "count_list (map Log_no_plugin as) (Clients_dispose c) = 0"
  "count_list (map Log_no_plugin as) (Rgw_msg_free r) = 0"
  by (simp_all add: count_list_log_no_plugin)

lemma work_th_item_dropped:
  assumes "snd (work_th_item oc wi) = Dropped"
  shows "count_list (fst (work_th_item oc wi)) (Clients_dispose (wi_cli wi)) = 1
       \<and> count_list (fst (work_th_item oc wi)) (Rgw_msg_free (Some (wi_msg wi)))
           = (if (dup_nulls oc \<and> auth_ret oc = 0)
                 \<or> (plg_nulls oc \<and> auth_ret oc = 0 \<and> dup_ret oc = 0 \<and> origin_ret oc = 0
                      \<and> base_ret oc = 0) then 0 else 1)"
  using assms
  by (auto simp: work_th_item_def Let_def count_list_log_no_plugin_release
          split: if_splits option.splits)

text \<open>
  When \<^verbatim>\<open>malloc\<close> gives no memory for the \<^verbatim>\<open>pending_answer\<close> the worker leaves the loop
  with \<^verbatim>\<open>break\<close> and releases neither.
\<close>

lemma work_th_item_no_memory_leaks:
  assumes "reaches_completeness oc" and "plg_sess oc = Some s"
    and "completeness_pb (plg_diam oc) (parse_ret oc) (attrs_left oc) = 0"
    and "\<not> malloc_ok oc"
  shows "snd (work_th_item oc wi) = Worker_exit
       \<and> count_list (fst (work_th_item oc wi)) (Clients_dispose (wi_cli wi)) = 0
       \<and> count_list (fst (work_th_item oc wi)) (Rgw_msg_free (Some (wi_msg wi))) = 0"
  by (simp add: work_th_item_no_memory [OF assms] count_gates_trace count_check_trace)

text \<open>The callback never calls \<^verbatim>\<open>rgw_msg_free\<close>.\<close>

lemma receive_diam_answer_keeps_request:
  "receive_diam_answer K ao paback ans = Some t \<Longrightarrow> count_list t (Rgw_msg_free r) = 0"
  by (auto simp: receive_diam_answer_def Let_def count_out_label split: option.splits if_splits)

text \<open>
  Claim C1 fails on the code.  The claim has the RADIUS message released exactly once
  on every path of the worker and of the callback.  In this run the item passes every
  stage and is sent; the answer 50 comes back and \<^verbatim>\<open>rgw_plg_loop_ans\<close> returns an error,
  so the callback jumps to \<^verbatim>\<open>out:\<close>.  The exchange releases the client 20 once, and
  destroys the session and frees the \<^verbatim>\<open>pending_answer\<close>, but it never frees the RADIUS
  message 10 that the \<^verbatim>\<open>pending_answer\<close> held: no \<^verbatim>\<open>rgw_msg_free\<close> is in the trace.  The
  inline cleanup of a failed dispatch frees that message.
\<close>

theorem exchange_leaves_request:
  "exchange rfc_consts stages_ok (answer_ok\<lparr>loop_ans_ret := 1\<rparr>) (Some 50) item0 =
     Some [Free_wi item0, Auth_check 10 20, Check_dup 10 20, Check_origin 10 20,
           Create_base 10 20, Plg_loop_req 10 (Some 30) (Some 40) 20, Parse_rules 40,
           Malloc_pa, Fd_msg_send (Some 40) pa0,
           Radius_msg_new, Plg_loop_ans 10 30 (Some 50) 60 20,
           Sess_destroy 30, Fd_msg_free 50, Clients_dispose 20, Free_pa pa0]"
  by (simp add: exchange_def work_th_item_def receive_diam_answer_def out_label_def Let_def
        stages_ok_def answer_ok_def item0_def pa0_def completeness_pb_def diam_invalid_def)

end
